theory Spec2Isabelle
  imports Complex_Main
begin

section \<open>Data model\<close>

text \<open>
  The notebook is a sequence of calls into pandas, scikit-learn, XGBoost, joblib and the
  cloud storage client. The functions the notebook defines (\<open>read_input\<close>,
  \<open>train_model\<close>, \<open>eval_model\<close>, \<open>save_model\<close>, \<open>upload_file_to_gcs\<close> and the class
  \<open>HousingServe\<close>) are embedded line by line. The library functions they call are not
  part of the notebook. The data handling ones (pandas, \<open>train_test_split\<close>,
  \<open>SimpleImputer\<close>, \<open>mean_absolute_error\<close>) are modelled from the spec, with the details
  the spec leaves open taken from the libraries' documentation; each such definition says
  so. The opaque ones (fitting and evaluating a boosted tree model, pickling) are
  parameters collected in the record \<open>lib\<close>. Floating point numbers are modelled by real
  numbers, and a missing value (\<open>NaN\<close> or \<open>None\<close>) by \<open>None\<close>.
\<close>

datatype error =
    FileNotFoundError
  | ParserError
  | KeyError
  | ValueError
  | IndexError
  | UnpicklingError
  | OSError
  | NameError
  | XGBoostError

text \<open>
  A pandas column has one dtype. \<open>read_csv\<close> gives numeric columns (\<open>int64\<close>,
  \<open>float64\<close>, \<open>bool\<close>) and \<open>object\<close> columns (strings); both may hold missing values.
\<close>

datatype column = NumCol "real option list" | ObjCol "string option list"

type_synonym dataframe = "(string \<times> column) list"

type_synonym matrix = "real option list list"

fun is_object :: "column \<Rightarrow> bool" where
  "is_object (NumCol xs) = False"
| "is_object (ObjCol xs) = True"

fun col_len :: "column \<Rightarrow> nat" where
  "col_len (NumCol xs) = length xs"
| "col_len (ObjCol xs) = length xs"

fun isna :: "column \<Rightarrow> bool list" where
  "isna (NumCol xs) = map (\<lambda>x. x = None) xs"
| "isna (ObjCol xs) = map (\<lambda>x. x = None) xs"

text \<open>Boolean indexing: the rows of a column whose mask entry is true.\<close>

definition keep_rows :: "bool list \<Rightarrow> 'a list \<Rightarrow> 'a list" where
  "keep_rows keep xs = map snd (filter fst (zip keep xs))"

fun col_filter :: "bool list \<Rightarrow> column \<Rightarrow> column" where
  "col_filter keep (NumCol xs) = NumCol (keep_rows keep xs)"
| "col_filter keep (ObjCol xs) = ObjCol (keep_rows keep xs)"

fun col_take :: "nat \<Rightarrow> column \<Rightarrow> column" where
  "col_take n (NumCol xs) = NumCol (take n xs)"
| "col_take n (ObjCol xs) = ObjCol (take n xs)"

fun col_drop :: "nat \<Rightarrow> column \<Rightarrow> column" where
  "col_drop n (NumCol xs) = NumCol (drop n xs)"
| "col_drop n (ObjCol xs) = ObjCol (drop n xs)"

fun col_append :: "column \<Rightarrow> column \<Rightarrow> column option" where
  "col_append (NumCol xs) (NumCol ys) = Some (NumCol (xs @ ys))"
| "col_append (ObjCol xs) (ObjCol ys) = Some (ObjCol (xs @ ys))"
| "col_append _ _ = None"

text \<open>The number of rows of a frame (the length of its index).\<close>

fun nrows :: "dataframe \<Rightarrow> nat" where
  "nrows [] = 0"
| "nrows ((k, c) # df) = col_len c"

text \<open>
  Modelled from the spec: pandas' \<open>data.dropna(axis=0, subset=[name], inplace=True)\<close> is
  not in the notebook. The spec: the loader "drops rows missing the target column" and
  "the target column must exist". So: a \<open>KeyError\<close> when the frame has no such column,
  otherwise every row whose entry in that column is missing is removed from all columns.
\<close>

definition dropna_subset :: "string \<Rightarrow> dataframe \<Rightarrow> error + dataframe" where
  "dropna_subset name data =
     (case map_of data name of
        None \<Rightarrow> Inl KeyError
      | Some c \<Rightarrow> Inr (map (\<lambda>(k, col). (k, col_filter (map Not (isna c)) col)) data))"

text \<open>
  Modelled from the spec: pandas' \<open>data.drop([name], axis=1)\<close> is not in the notebook.
  The spec: the loader "separates numeric feature columns from the label". The column is
  removed; pandas raises a \<open>KeyError\<close> when the frame has no such column.
\<close>

definition drop_column :: "string \<Rightarrow> dataframe \<Rightarrow> error + dataframe" where
  "drop_column name data =
     (if name \<in> fst ` set data then Inr (filter (\<lambda>(k, col). k \<noteq> name) data)
      else Inl KeyError)"

text \<open>
  Modelled from the spec: pandas' \<open>select_dtypes(exclude=['object'])\<close> is not in the
  notebook. The spec: "non-numeric columns are excluded entirely from modeling".
\<close>

definition select_dtypes_exclude_object :: "dataframe \<Rightarrow> dataframe" where
  "select_dtypes_exclude_object data = filter (\<lambda>(k, col). \<not> is_object col) data"

fun num_cells :: "column \<Rightarrow> real option list" where
  "num_cells (NumCol xs) = xs"
| "num_cells (ObjCol xs) = []"

text \<open>
  Modelled from the spec: pandas' \<open>X.values\<close> is not in the notebook. The spec speaks of
  the "feature matrix" of a partition: for a frame of numeric columns with \<open>n\<close> rows, the
  matrix of its rows. The row count is passed along, as a frame with no column left still
  has its index.
\<close>

definition frame_values :: "nat \<Rightarrow> dataframe \<Rightarrow> matrix" where
  "frame_values n X = map (\<lambda>i. map (\<lambda>(k, col). num_cells col ! i) X) [0..<n]"

subsection \<open>The train/test split of scikit-learn\<close>

text \<open>
  Modelled from the spec: the row counts of scikit-learn's \<open>train_test_split\<close>, which is
  not in the notebook. The spec: a split "at a fixed fraction", with
  "test_rows \<approx> round(total_rows * test_fraction)" and the two parts adding up to all
  rows. The exact counts are those of scikit-learn's documentation for a float
  \<open>test_size\<close> \<open>t\<close>: \<open>t\<close> must lie strictly between 0 and 1, the test part has
  \<open>ceil(t * n)\<close> rows and the training part the \<open>n - n_test\<close> others, and an empty
  training part is refused.
\<close>

definition validate_shuffle_split :: "nat \<Rightarrow> real \<Rightarrow> error + nat \<times> nat" where
  "validate_shuffle_split n_samples test_size =
     (if test_size \<le> 0 \<or> test_size \<ge> 1 then Inl ValueError
      else
        let n_test = nat \<lceil>test_size * real n_samples\<rceil>;
            n_train = n_samples - n_test
        in if n_train = 0 then Inl ValueError else Inr (n_train, n_test))"

text \<open>
  Modelled from the spec: scikit-learn's \<open>train_test_split(X, y, test_size=t,
  shuffle=False)\<close> is not in the notebook. The spec: "a deterministic, order-preserving
  (non-shuffled) split". The arrays must have the same number of rows; without shuffling
  the training rows are the indices \<open>0 ..< n_train\<close> and the test rows are
  \<open>n_train ..< n_train + n_test\<close>.
\<close>

definition train_test_split ::
  "matrix \<Rightarrow> column \<Rightarrow> real \<Rightarrow> error + (matrix \<times> matrix \<times> column \<times> column)" where
  "train_test_split X y test_size =
     (if length X \<noteq> col_len y then Inl ValueError
      else case validate_shuffle_split (length X) test_size of
        Inl e \<Rightarrow> Inl e
      | Inr (n_train, n_test) \<Rightarrow>
          Inr (take n_train X, take n_test (drop n_train X),
               col_take n_train y, col_take n_test (col_drop n_train y)))"

subsection \<open>The median imputer of scikit-learn\<close>

text \<open>
  Modelled from the spec: the median that \<open>SimpleImputer(strategy="median")\<close> computes;
  scikit-learn is not in the notebook. The spec: "the per-column median". The median of
  no value at all does not exist; of an even number of values it is the mean of the two
  middle ones.
\<close>

definition median :: "real list \<Rightarrow> real option" where
  "median xs =
     (if xs = [] then None
      else
        let s = sort xs; n = length s
        in if odd n then Some (s ! (n div 2))
           else Some ((s ! (n div 2 - 1) + s ! (n div 2)) / 2))"

text \<open>The values of column \<open>j\<close> of a matrix that are not missing.\<close>

definition observed :: "matrix \<Rightarrow> nat \<Rightarrow> real list" where
  "observed X j = List.map_filter (\<lambda>row. row ! j) X"

text \<open>
  Modelled from the spec: \<open>SimpleImputer.fit\<close> is not in the notebook. The spec:
  "imputation statistics (per-column median) are computed only from the training
  partition". Fitting computes, for every column of the array it is given, the median of
  the values that are not missing; a column with no value at all gets no statistic.
  scikit-learn refuses an array with no row or no column.
\<close>

definition imputer_fit :: "matrix \<Rightarrow> error + real option list" where
  "imputer_fit X =
     (case X of
        [] \<Rightarrow> Inl ValueError
      | r # rs \<Rightarrow>
          if r = [] then Inl ValueError
          else Inr (map (\<lambda>j. median (observed X j)) [0..<length r]))"

text \<open>
  Modelled from the spec: what \<open>SimpleImputer.transform\<close> does to one row. The spec:
  "fills missing feature values with each column's median". Following scikit-learn's
  documentation, the columns that got no statistic are discarded, and in the others a
  missing entry is replaced by the statistic of its column.
\<close>

definition impute_row :: "real option list \<Rightarrow> real option list \<Rightarrow> real option list" where
  "impute_row stats row =
     map (\<lambda>(s, c). if c = None then s else c) (filter (\<lambda>(s, c). s \<noteq> None) (zip stats row))"

text \<open>
  Modelled from the spec: \<open>SimpleImputer.transform\<close> is not in the notebook. The spec:
  the statistics are "applied unchanged to the test partition". Every row is imputed with
  the fitted statistics; scikit-learn refuses an empty array and an array whose width
  differs from the fitted one.
\<close>

definition imputer_transform :: "real option list \<Rightarrow> matrix \<Rightarrow> error + matrix" where
  "imputer_transform stats X =
     (if X = [] \<or> stats = [] \<or> (\<exists>row \<in> set X. length row \<noteq> length stats) then Inl ValueError
      else Inr (map (impute_row stats) X))"

text \<open>The fitted imputer, with the two attributes the notebook reads.\<close>

record imputer =
  strategy :: string
  statistics :: "real option list"

section \<open>The data loader\<close>

text \<open>
  The first half of \<open>read_input\<close>, from the parsed file to the four arrays that
  \<open>train_test_split\<close> returns:
  \<^verbatim>\<open>
    data.dropna(axis=0, subset=['SalePrice'], inplace=True)
    y = data.SalePrice
    X = data.drop(['SalePrice'], axis=1).select_dtypes(exclude=['object'])
    train_X, test_X, train_y, test_y = train_test_split(X.values, y.values,
                                                      test_size=test_size, shuffle=False)
  \<close>
\<close>

definition target_and_features :: "dataframe \<Rightarrow> error + (dataframe \<times> column \<times> dataframe)" where
  "target_and_features data0 =
     (case dropna_subset ''SalePrice'' data0 of
        Inl e \<Rightarrow> Inl e
      | Inr data \<Rightarrow>
          (case map_of data ''SalePrice'' of
             None \<Rightarrow> Inl KeyError
           | Some y \<Rightarrow>
               (case drop_column ''SalePrice'' data of
                  Inl e \<Rightarrow> Inl e
                | Inr d \<Rightarrow> Inr (data, y, select_dtypes_exclude_object d))))"

definition split_input ::
  "dataframe \<Rightarrow> real \<Rightarrow> error + (matrix \<times> matrix \<times> column \<times> column)" where
  "split_input data0 test_size =
     (case target_and_features data0 of
        Inl e \<Rightarrow> Inl e
      | Inr (data, y, X) \<Rightarrow> train_test_split (frame_values (nrows data) X) y test_size)"

text \<open>
  The second half:
  \<^verbatim>\<open>
    imputer = SimpleImputer(strategy="median")
    train_X = imputer.fit_transform(train_X)
    test_X = imputer.transform(test_X)
    return (train_X, train_y), (test_X, test_y), imputer
  \<close>
\<close>

definition impute_split ::
  "matrix \<times> matrix \<times> column \<times> column \<Rightarrow>
   error + ((matrix \<times> column) \<times> (matrix \<times> column) \<times> imputer)" where
  "impute_split s =
     (case s of (train_X, test_X, train_y, test_y) \<Rightarrow>
        (case imputer_fit train_X of
           Inl e \<Rightarrow> Inl e
         | Inr stats \<Rightarrow>
             (case imputer_transform stats train_X of
                Inl e \<Rightarrow> Inl e
              | Inr train_X' \<Rightarrow>
                  (case imputer_transform stats test_X of
                     Inl e \<Rightarrow> Inl e
                   | Inr test_X' \<Rightarrow>
                       Inr ((train_X', train_y), (test_X', test_y),
                            \<lparr>strategy = ''median'', statistics = stats\<rparr>)))))"

definition read_input_frame ::
  "dataframe \<Rightarrow> real \<Rightarrow> error + ((matrix \<times> column) \<times> (matrix \<times> column) \<times> imputer)" where
  "read_input_frame data0 test_size =
     (case split_input data0 test_size of
        Inl e \<Rightarrow> Inl e
      | Inr s \<Rightarrow> impute_split s)"

section \<open>Files, the bucket and the libraries\<close>

text \<open>
  A file holds either a table (what \<open>pd.read_csv\<close> parses) or the bytes that
  \<open>joblib.dump\<close> wrote. The world is the local file system (the files, and the paths at
  which a file can be created or overwritten), the remote buckets (each a map from object
  keys to contents), whether the network is up, and the trace. The trace records the calls
  of \<open>joblib.dump\<close> and \<open>joblib.load\<close> with their paths, the entry into
  \<open>upload_file_to_gcs\<close> with its three arguments, and the lines printed or logged.
\<close>

datatype 'b content = CsvFile dataframe | DatFile 'b

datatype event =
    JoblibDump string
  | JoblibLoad string
  | UploadFileToGcs string string string
  | PrintBestRMSE
  | LogMAE real
  | LogInfo string

record 'b world =
  files :: "string \<rightharpoonup> 'b content"
  writable :: "string \<Rightarrow> bool"
  gcs :: "string \<rightharpoonup> (string \<rightharpoonup> 'b content)"
  online :: bool
  trace :: "event list"

text \<open>
  The opaque library operations on a model of type \<open>'m\<close> and serialized bytes of type
  \<open>'b\<close>: \<open>XGBRegressor(n_estimators, learning_rate).fit(train_X, train_y,
  early_stopping_rounds=40, eval_set=[(test_X, test_y)])\<close>, \<open>model.predict\<close>,
  \<open>joblib.dump\<close> and \<open>joblib.load\<close>. Nothing is assumed about them. Pickling a model
  gives the bytes written to the file and, when it fails part-way, the exception raised
  (the bytes are then what had been written before).
\<close>

record ('m, 'b) lib =
  xgb_fit :: "nat \<Rightarrow> real \<Rightarrow> matrix \<Rightarrow> column \<Rightarrow> matrix \<Rightarrow> column \<Rightarrow> error + 'm"
  xgb_predict :: "'m \<Rightarrow> matrix \<Rightarrow> error + real list"
  joblib_dump :: "'m \<Rightarrow> 'b \<times> error option"
  joblib_load :: "'b \<Rightarrow> error + 'm"

text \<open>
  Modelled from the spec: pandas' \<open>pd.read_csv(file_name)\<close> is not in the notebook. The
  spec: the loader "reads a tabular file" and "propagates whatever the underlying I/O
  raises" when the "file is missing or malformed".
\<close>

definition read_csv :: "'b world \<Rightarrow> string \<Rightarrow> error + dataframe" where
  "read_csv w file_name =
     (case files w file_name of
        None \<Rightarrow> Inl FileNotFoundError
      | Some (CsvFile data) \<Rightarrow> Inr data
      | Some (DatFile b) \<Rightarrow> Inl ParserError)"

text \<open>The default of the parameter \<open>test_size\<close> of \<open>read_input\<close>.\<close>

definition default_test_size :: real where
  "default_test_size = 25 / 100"

text \<open>
  \<open>read_input(file_name, test_size)\<close>: \<open>data = pd.read_csv(file_name)\<close>, then the two
  halves above.
\<close>

definition read_input ::
  "'b world \<Rightarrow> string \<Rightarrow> real \<Rightarrow> error + ((matrix \<times> column) \<times> (matrix \<times> column) \<times> imputer)" where
  "read_input w file_name test_size =
     (case read_csv w file_name of
        Inl e \<Rightarrow> Inl e
      | Inr data \<Rightarrow> read_input_frame data test_size)"

text \<open>
  Modelled from the spec: scikit-learn's \<open>mean_absolute_error(predictions, test_y)\<close> is
  not in the notebook. The spec: the evaluator "computes mean absolute error of
  predictions on the held-out partition". scikit-learn refuses arrays of different
  lengths, empty ones and labels that are not numbers.
\<close>

definition mean_absolute_error :: "real list \<Rightarrow> column \<Rightarrow> error + real" where
  "mean_absolute_error predictions y =
     (case y of
        ObjCol ys \<Rightarrow> Inl ValueError
      | NumCol ys \<Rightarrow>
          if ys = [] \<or> length ys \<noteq> length predictions \<or> None \<in> set ys then Inl ValueError
          else Inr (sum_list (map (\<lambda>(p, v). \<bar>p - the v\<bar>) (zip predictions ys)) / real (length ys)))"

text \<open>
  \<open>train_model\<close> fits the regressor (a library parameter) and prints one line about the
  best score.
\<close>

definition train_model ::
  "('m, 'b) lib \<Rightarrow> matrix \<Rightarrow> column \<Rightarrow> matrix \<Rightarrow> column \<Rightarrow> nat \<Rightarrow> real \<Rightarrow> 'b world \<Rightarrow>
   (error + 'm) \<times> 'b world" where
  "train_model L train_X train_y test_X test_y n_est rate w =
     (case xgb_fit L n_est rate train_X train_y test_X test_y of
        Inl e \<Rightarrow> (Inl e, w)
      | Inr model \<Rightarrow> (Inr model, w\<lparr>trace := trace w @ [PrintBestRMSE]\<rparr>))"

text \<open>\<open>eval_model\<close> predicts on the held-out partition and logs the mean absolute error.\<close>

definition eval_model ::
  "('m, 'b) lib \<Rightarrow> 'm \<Rightarrow> matrix \<Rightarrow> column \<Rightarrow> 'b world \<Rightarrow> (error + unit) \<times> 'b world" where
  "eval_model L model test_X test_y w =
     (case xgb_predict L model test_X of
        Inl e \<Rightarrow> (Inl e, w)
      | Inr predictions \<Rightarrow>
          (case mean_absolute_error predictions test_y of
             Inl e \<Rightarrow> (Inl e, w)
           | Inr mae \<Rightarrow> (Inr (), w\<lparr>trace := trace w @ [LogMAE mae]\<rparr>)))"

text \<open>
  \<open>save_model\<close>:
  \<^verbatim>\<open>
    joblib.dump(model, model_file)
    logging.info("Model export success: %s", model_file)
  \<close>
  \<open>joblib.dump\<close> opens the file for writing, which raises an \<open>OSError\<close> and writes
  nothing when no file can be created at the path, and then pickles the model into it,
  which may raise after part of the bytes has been written. The line is logged only when
  \<open>joblib.dump\<close> has returned.
\<close>

definition save_model ::
  "('m, 'b) lib \<Rightarrow> 'm \<Rightarrow> string \<Rightarrow> 'b world \<Rightarrow> (error + unit) \<times> 'b world" where
  "save_model L model path w =
     (let w1 = w\<lparr>trace := trace w @ [JoblibDump path]\<rparr>
      in if \<not> writable w path then (Inl OSError, w1)
         else case joblib_dump L model of
           (b, Some e) \<Rightarrow> (Inl e, w1\<lparr>files := (files w)(path \<mapsto> DatFile b)\<rparr>)
         | (b, None) \<Rightarrow>
             (Inr (),
              w1\<lparr>files := (files w)(path \<mapsto> DatFile b),
                 trace := trace w1 @ [LogInfo (''Model export success: '' @ path)]\<rparr>))"

text \<open>
  \<open>upload_file_to_gcs\<close>:
  \<^verbatim>\<open>
    storage_client = storage.Client()
    bucket = storage_client.get_bucket(bucket_name)
    blob = bucket.blob(destination_file_name)
    blob.upload_from_filename(source_file_name)
    print('File {} uploaded to to gs://{}/{}'.format(...))
  \<close>
  No cell of the notebook imports or assigns the name \<open>storage\<close>: its imports are
  \<open>argparse\<close>, \<open>logging\<close>, \<open>joblib\<close>, \<open>sys\<close>, \<open>os\<close>, \<open>pandas as pd\<close>,
  \<open>mean_absolute_error\<close>, \<open>train_test_split\<close>, \<open>SimpleImputer\<close>, \<open>XGBRegressor\<close> and
  \<open>fairing\<close>. So the first statement raises a \<open>NameError\<close> on every call, before any
  call into the storage client, and the statements after it never run: nothing is
  uploaded and nothing is printed. The entry into the function is recorded in the trace.
\<close>

definition upload_file_to_gcs ::
  "string \<Rightarrow> string \<Rightarrow> string \<Rightarrow> 'b world \<Rightarrow> (error + unit) \<times> 'b world" where
  "upload_file_to_gcs bucket_name source_file_name destination_file_name w =
     (Inl NameError,
      w\<lparr>trace := trace w @
           [UploadFileToGcs bucket_name source_file_name destination_file_name]\<rparr>)"

text \<open>
  Modelled from the spec: \<open>joblib.load(path)\<close> is not in the notebook. The spec: the
  wrapper "deserializes the model from the known local file path (assumes it is already
  present -- no implicit download-on-demand)". The call reads the local file and fails
  when there is none or when it does not hold a serialized model; what the bytes
  deserialize to is the library parameter \<open>joblib_load\<close>.
\<close>

definition load_file ::
  "('m, 'b) lib \<Rightarrow> string \<Rightarrow> 'b world \<Rightarrow> (error + 'm) \<times> 'b world" where
  "load_file L path w =
     (let w1 = w\<lparr>trace := trace w @ [JoblibLoad path]\<rparr>
      in case files w path of
           None \<Rightarrow> (Inl FileNotFoundError, w1)
         | Some (CsvFile data) \<Rightarrow> (Inl UnpicklingError, w1)
         | Some (DatFile b) \<Rightarrow> (joblib_load L b, w1))"

section \<open>The class HousingServe\<close>

text \<open>The attributes that \<open>__init__\<close> sets, and their initial values.\<close>

record 'm housing_serve =
  train_input :: string
  n_estimators :: nat
  learning_rate :: real
  model_file :: string
  trained_model :: "'m option"

definition init :: "'m housing_serve" where
  "init = \<lparr>train_input = ''ames_dataset/train.csv'',
           n_estimators = 50,
           learning_rate = 1 / 10,
           model_file = ''trained_ames_model.dat'',
           trained_model = None\<rparr>"

text \<open>
  \<open>train\<close> reads the global \<open>GCS_BUCKET_ID\<close>, which is an argument here. It returns
  nothing; an exception of any step ends it there.
\<close>

definition train ::
  "('m, 'b) lib \<Rightarrow> string \<Rightarrow> 'm housing_serve \<Rightarrow> 'b world \<Rightarrow> (error + unit) \<times> 'b world" where
  "train L GCS_BUCKET_ID self w =
     (case read_input w (train_input self) default_test_size of
        Inl e \<Rightarrow> (Inl e, w)
      | Inr ((train_X, train_y), (test_X, test_y), imp) \<Rightarrow>
          (case train_model L train_X train_y test_X test_y
                  (n_estimators self) (learning_rate self) w of
             (Inl e, w1) \<Rightarrow> (Inl e, w1)
           | (Inr model, w1) \<Rightarrow>
               (case eval_model L model test_X test_y w1 of
                  (Inl e, w2) \<Rightarrow> (Inl e, w2)
                | (Inr u, w2) \<Rightarrow>
                    (case save_model L model (model_file self) w2 of
                       (Inl e, w3) \<Rightarrow> (Inl e, w3)
                     | (Inr u, w3) \<Rightarrow>
                         upload_file_to_gcs GCS_BUCKET_ID (model_file self) (model_file self) w3))))"

text \<open>
  \<open>predict\<close>. The test \<open>not self.trained_model\<close> is Python's truth test; a model object
  (an \<open>XGBRegressor\<close>) defines neither \<open>__bool__\<close> nor \<open>__len__\<close>, so it is true exactly
  when the attribute is still \<open>None\<close>. \<open>prediction.item(0)\<close> is the first entry of the
  array of predictions, and an \<open>IndexError\<close> on an empty array. The method returns its
  value together with the object and the world as it leaves them.
\<close>

definition predict ::
  "('m, 'b) lib \<Rightarrow> 'm housing_serve \<Rightarrow> 'b world \<Rightarrow> matrix \<Rightarrow> string list \<Rightarrow>
   (error + real list list) \<times> 'm housing_serve \<times> 'b world" where
  "predict L self w X feature_names =
     (case (case trained_model self of
              Some m \<Rightarrow> (Inr m, self, w)
            | None \<Rightarrow>
                (case load_file L (model_file self) w of
                   (Inl e, w1) \<Rightarrow> (Inl e, self, w1)
                 | (Inr m, w1) \<Rightarrow> (Inr m, self\<lparr>trained_model := Some m\<rparr>, w1))) of
        (Inl e, self1, w1) \<Rightarrow> (Inl e, self1, w1)
      | (Inr m, self1, w1) \<Rightarrow>
          (case xgb_predict L m X of
             Inl e \<Rightarrow> (Inl e, self1, w1)
           | Inr prediction \<Rightarrow>
               (case prediction of
                  [] \<Rightarrow> (Inl IndexError, self1, w1)
                | p # ps \<Rightarrow> (Inr [[p, p]], self1, w1))))"

text \<open>A sequence of \<open>predict\<close> calls on one object; the values returned are dropped.\<close>

fun predict_calls ::
  "('m, 'b) lib \<Rightarrow> 'm housing_serve \<Rightarrow> 'b world \<Rightarrow> (matrix \<times> string list) list \<Rightarrow>
   'm housing_serve \<times> 'b world" where
  "predict_calls L self w [] = (self, w)"
| "predict_calls L self w ((X, feature_names) # calls) =
     (case predict L self w X feature_names of
        (r, self1, w1) \<Rightarrow> predict_calls L self1 w1 calls)"

section \<open>A concrete environment\<close>

text \<open>
  A small table, a second one that differs from it in the rows of the test partition only,
  a world holding both, and library operations on models that are real numbers. They are
  the inputs at which the theorems below are instantiated.
\<close>

definition example_lib :: "(real, real) lib" where
  "example_lib =
     \<lparr>xgb_fit = (\<lambda>n_est rate train_X train_y test_X test_y. Inr rate),
      xgb_predict = (\<lambda>m X. Inr (map (\<lambda>row. m + sum_list (map (case_option 0 id) row)) X)),
      joblib_dump = (\<lambda>m. (2 * m, None)),
      joblib_load = (\<lambda>b. Inr (b / 2))\<rparr>"

definition example_frame :: dataframe where
  "example_frame =
     [(''Id'', NumCol [Some 1, Some 2, Some 3, Some 4, Some 5, Some 6]),
      (''LotArea'', NumCol [Some 80, None, Some 60, Some 70, None, None]),
      (''Street'', ObjCol [Some ''Pave'', Some ''Grvl'', None, Some ''Pave'', Some ''Pave'', Some ''Grvl'']),
      (''Alley'', NumCol [None, None, None, None, None, Some 3]),
      (''SalePrice'', NumCol [Some 200, Some 180, Some 140, None, Some 250, Some 130])]"

definition other_frame :: dataframe where
  "other_frame =
     [(''Id'', NumCol [Some 1, Some 2, Some 3, Some 4, Some 9, Some 9]),
      (''LotArea'', NumCol [Some 80, None, Some 60, Some 70, Some 10, Some 20]),
      (''Street'', ObjCol [Some ''Pave'', Some ''Grvl'', None, Some ''Pave'', Some ''Pave'', Some ''Grvl'']),
      (''Alley'', NumCol [None, None, None, None, Some 7, None]),
      (''SalePrice'', NumCol [Some 200, Some 180, Some 140, None, Some 250, Some 130])]"

definition example_data :: dataframe where
  "example_data =
     [(''Id'', NumCol [Some 1, Some 2, Some 3, Some 5, Some 6]),
      (''LotArea'', NumCol [Some 80, None, Some 60, None, None]),
      (''Street'', ObjCol [Some ''Pave'', Some ''Grvl'', None, Some ''Pave'', Some ''Grvl'']),
      (''Alley'', NumCol [None, None, None, None, Some 3]),
      (''SalePrice'', NumCol [Some 200, Some 180, Some 140, Some 250, Some 130])]"

definition example_y :: column where
  "example_y = NumCol [Some 200, Some 180, Some 140, Some 250, Some 130]"

definition example_X :: dataframe where
  "example_X =
     [(''Id'', NumCol [Some 1, Some 2, Some 3, Some 5, Some 6]),
      (''LotArea'', NumCol [Some 80, None, Some 60, None, None]),
      (''Alley'', NumCol [None, None, None, None, Some 3])]"

definition example_world :: "real world" where
  "example_world =
     \<lparr>files = [''ames_dataset/train.csv'' \<mapsto> CsvFile example_frame,
               ''other.csv'' \<mapsto> CsvFile other_frame],
      writable = (\<lambda>path. path \<noteq> ''no_such_dir/model.dat''),
      gcs = Map.empty, online = True, trace = []\<rparr>"

definition loaded_serve :: "real housing_serve" where
  "loaded_serve = init\<lparr>trained_model := Some 0\<rparr>"

definition trained_world :: "real world" where
  "trained_world =
     example_world
       \<lparr>files := (files example_world)(''trained_ames_model.dat'' \<mapsto> DatFile (1 / 5)),
        trace := [PrintBestRMSE, LogMAE (1144 / 10), JoblibDump ''trained_ames_model.dat'',
                  LogInfo ''Model export success: trained_ames_model.dat'',
                  UploadFileToGcs ''demo-bucket'' ''trained_ames_model.dat''
                    ''trained_ames_model.dat'']\<rparr>"



section \<open>Auxiliary facts\<close>

lemma validate_shuffle_split_Inr:
  assumes "validate_shuffle_split n t = Inr (a, b)"
  shows "b = nat \<lceil>t * real n\<rceil> \<and> a + b = n \<and> 0 < a \<and> 0 < b \<and> 0 < t \<and> t < 1"
proof -
  from assms have t: "0 < t" "t < 1"
    and b: "b = nat \<lceil>t * real n\<rceil>" and a: "a = n - b" and pos: "0 < a"
    by (auto simp: validate_shuffle_split_def Let_def split: if_splits)
  from a pos have n: "0 < n" "b < n" by auto
  from t n have "0 < t * real n" by simp
  then have "0 < \<lceil>t * real n\<rceil>" by simp
  with b have "0 < b" by simp
  with a pos t b show ?thesis by auto
qed

lemma col_take_drop_all:
  "a + b = col_len y \<Longrightarrow> col_take b (col_drop a y) = col_drop a y"
  by (cases y) auto

lemma train_test_split_Inr:
  assumes "train_test_split V y t = Inr (trX, teX, trY, teY)"
  shows "\<exists>k. 0 < k \<and> k < length V \<and> length V - k = nat \<lceil>t * real (length V)\<rceil> \<and>
             length V = col_len y \<and>
             trX = take k V \<and> teX = drop k V \<and> trY = col_take k y \<and> teY = col_drop k y"
proof -
  from assms have len: "length V = col_len y"
    by (auto simp: train_test_split_def split: if_splits)
  from assms len obtain a b where v: "validate_shuffle_split (length V) t = Inr (a, b)"
    and r: "trX = take a V" "teX = take b (drop a V)"
           "trY = col_take a y" "teY = col_take b (col_drop a y)"
    by (auto simp: train_test_split_def split: if_splits sum.splits)
  from validate_shuffle_split_Inr[OF v]
  have f: "b = nat \<lceil>t * real (length V)\<rceil>" "a + b = length V" "0 < a" "0 < b" by auto
  from f len have "col_take b (col_drop a y) = col_drop a y"
    by (simp add: col_take_drop_all)
  moreover from f have "take b (drop a V) = drop a V" by simp
  moreover from f have "length V - a = nat \<lceil>t * real (length V)\<rceil>" "a < length V" by linarith+
  ultimately show ?thesis using r f len by blast
qed

lemma imputer_transform_Inr:
  "imputer_transform stats V = Inr W \<Longrightarrow> W = map (impute_row stats) V"
  by (auto simp: imputer_transform_def split: if_splits)

lemma impute_row_no_missing: "c \<in> set (impute_row stats row) \<Longrightarrow> c \<noteq> None"
  by (auto simp: impute_row_def split: if_splits)

lemma impute_split_Inr:
  assumes "impute_split (trX, teX, trY, teY) = Inr ((train_X, train_y), (test_X, test_y), imp)"
  shows "imputer_fit trX = Inr (statistics imp) \<and> strategy imp = ''median'' \<and>
         train_X = map (impute_row (statistics imp)) trX \<and>
         test_X = map (impute_row (statistics imp)) teX \<and>
         train_y = trY \<and> test_y = teY"
  using assms unfolding impute_split_def
  by (auto split: sum.splits dest: imputer_transform_Inr)

lemma length_frame_values: "length (frame_values n X) = n"
  by (simp add: frame_values_def)

lemma map_of_filtered:
  "map_of (map (\<lambda>(k, col). (k, g col)) d) name = map_option g (map_of d name)"
  by (induction d) auto

lemma target_and_features_Inr:
  assumes "target_and_features data0 = Inr (data, y, X)"
  shows "\<exists>c0. map_of data0 ''SalePrice'' = Some c0 \<and>
           data = map (\<lambda>(k, col). (k, col_filter (map Not (isna c0)) col)) data0 \<and>
           y = col_filter (map Not (isna c0)) c0 \<and>
           X = select_dtypes_exclude_object (filter (\<lambda>(k, col). k \<noteq> ''SalePrice'') data)"
  using assms unfolding target_and_features_def dropna_subset_def drop_column_def
  by (auto split: option.splits sum.splits if_splits simp: map_of_filtered)

lemma split_input_Inr:
  assumes "split_input data0 t = Inr (trX, teX, trY, teY)"
  shows "\<exists>data y X k. target_and_features data0 = Inr (data, y, X) \<and>
           0 < k \<and> k < nrows data \<and> nrows data - k = nat \<lceil>t * real (nrows data)\<rceil> \<and>
           nrows data = col_len y \<and>
           trX = take k (frame_values (nrows data) X) \<and>
           teX = drop k (frame_values (nrows data) X) \<and>
           trY = col_take k y \<and> teY = col_drop k y"
proof -
  from assms obtain data y X where tf: "target_and_features data0 = Inr (data, y, X)"
    and s: "train_test_split (frame_values (nrows data) X) y t = Inr (trX, teX, trY, teY)"
    by (auto simp: split_input_def split: sum.splits)
  from train_test_split_Inr[OF s] tf show ?thesis
    by (auto simp: length_frame_values)
qed

lemma read_input_frame_Inr:
  assumes "read_input_frame data0 t = Inr ((train_X, train_y), (test_X, test_y), imp)"
  shows "\<exists>trX teX. split_input data0 t = Inr (trX, teX, train_y, test_y) \<and>
           imputer_fit trX = Inr (statistics imp) \<and> strategy imp = ''median'' \<and>
           train_X = map (impute_row (statistics imp)) trX \<and>
           test_X = map (impute_row (statistics imp)) teX"
proof -
  from assms obtain trX teX trY teY where s: "split_input data0 t = Inr (trX, teX, trY, teY)"
    and i: "impute_split (trX, teX, trY, teY) = Inr ((train_X, train_y), (test_X, test_y), imp)"
    by (auto simp: read_input_frame_def split: sum.splits)
  from impute_split_Inr[OF i] s show ?thesis by auto
qed

lemma read_input_Inr:
  "read_input w f t = Inr r \<Longrightarrow> read_csv w f = Inr data0 \<Longrightarrow> read_input_frame data0 t = Inr r"
  by (simp add: read_input_def)

lemma keep_rows_self: "keep_rows (map P xs) xs = filter P xs"
  unfolding keep_rows_def by (induction xs) auto

lemma col_len_dropna: "col_len (col_filter (map Not (isna c)) c) = length (filter Not (isna c))"
  by (cases c) (simp_all add: keep_rows_self filter_map)

lemma isna_dropna: "True \<notin> set (isna (col_filter (map Not (isna c)) c))"
  by (cases c) (auto simp: keep_rows_self)

lemma ceiling_near_round: "\<bar>\<lceil>x\<rceil> - round (x::real)\<bar> \<le> 1"
  unfolding round_def by linarith

subsection \<open>The concrete environment evaluated\<close>

lemma example_read_csv:
  "read_csv example_world ''ames_dataset/train.csv'' = Inr example_frame"
  by (simp add: read_csv_def example_world_def)

lemma other_read_csv:
  "read_csv example_world ''other.csv'' = Inr other_frame"
  by (simp add: read_csv_def example_world_def)

lemma example_target_and_features:
  "target_and_features example_frame = Inr (example_data, example_y, example_X)"
  by code_simp

lemma example_split_input:
  "split_input example_frame default_test_size =
     Inr ([[Some 1, Some 80, None], [Some 2, None, None], [Some 3, Some 60, None]],
          [[Some 5, None, None], [Some 6, None, Some 3]],
          NumCol [Some 200, Some 180, Some 140], NumCol [Some 250, Some 130])"
  by code_simp

lemma other_split_input:
  "split_input other_frame default_test_size =
     Inr ([[Some 1, Some 80, None], [Some 2, None, None], [Some 3, Some 60, None]],
          [[Some 9, Some 10, Some 7], [Some 9, Some 20, None]],
          NumCol [Some 200, Some 180, Some 140], NumCol [Some 250, Some 130])"
  by code_simp

lemma example_read_input:
  "read_input example_world ''ames_dataset/train.csv'' default_test_size =
     Inr (([[Some 1, Some 80], [Some 2, Some 70], [Some 3, Some 60]],
           NumCol [Some 200, Some 180, Some 140]),
          ([[Some 5, Some 70], [Some 6, Some 70]], NumCol [Some 250, Some 130]),
          \<lparr>strategy = ''median'', statistics = [Some 2, Some 70, None]\<rparr>)"
  unfolding read_input_def example_read_csv sum.case read_input_frame_def example_split_input
  by code_simp

lemma other_read_input:
  "read_input example_world ''other.csv'' default_test_size =
     Inr (([[Some 1, Some 80], [Some 2, Some 70], [Some 3, Some 60]],
           NumCol [Some 200, Some 180, Some 140]),
          ([[Some 9, Some 10], [Some 9, Some 20]], NumCol [Some 250, Some 130]),
          \<lparr>strategy = ''median'', statistics = [Some 2, Some 70, None]\<rparr>)"
  unfolding read_input_def other_read_csv sum.case read_input_frame_def other_split_input
  by code_simp

lemma example_target: "map_of example_frame ''SalePrice'' =
    Some (NumCol [Some 200, Some 180, Some 140, None, Some 250, Some 130])"
  by (simp add: example_frame_def)

lemma loaded_model: "trained_model loaded_serve = Some 0"
  by (simp add: loaded_serve_def)

lemma example_prediction: "xgb_predict example_lib 0 [[Some 7]] = Inr [7]"
  by (simp add: example_lib_def)

lemma predict_calls_loaded:
  "trained_model self = Some m \<Longrightarrow> predict_calls L self w calls = (self, w)"
proof (induction calls)
  case Nil
  then show ?case by simp
next
  case (Cons c calls)
  obtain X fn where c: "c = (X, fn)" by (cases c)
  from Cons.prems have "\<exists>r. predict L self w X fn = (r, self, w)"
    by (simp add: predict_def split: sum.splits list.splits)
  with Cons c show ?case by auto
qed

lemma init_unloaded: "trained_model (init :: real housing_serve) = None"
  by (simp add: init_def)

lemma example_first_predict:
  "predict example_lib init trained_world [[Some 7]] [] =
     (Inr [[71 / 10, 71 / 10]], init\<lparr>trained_model := Some (1 / 10)\<rparr>,
      trained_world\<lparr>trace := trace trained_world @ [JoblibLoad ''trained_ames_model.dat'']\<rparr>)"
  by (simp add: predict_def load_file_def Let_def init_def trained_world_def example_world_def
      example_lib_def)





section \<open>The predictor wrapper\<close>

text \<open>
  C1, as amended. On an object whose model is loaded, \<open>predict\<close> returns one list
  holding one pair, both entries being the first entry of the model's predictions on
  \<open>X\<close>; it raises \<open>IndexError\<close> when there is no prediction, and it leaves the
  object and the world as they were. For an input of one row this is the duplicated
  prediction of that row; the rows after the first have no pair in the result.
\<close>

theorem predict_returns_pair_of_first_prediction:
  assumes "trained_model self = Some m" and "xgb_predict L m X = Inr prediction"
  shows "predict L self w X fn =
           ((case prediction of [] \<Rightarrow> Inl IndexError | p # ps \<Rightarrow> Inr [[p, p]]), self, w)"
  using assms by (simp add: predict_def split: list.splits)

theorem predict_returns_pair_witness:
  "trained_model loaded_serve = Some 0 \<and> xgb_predict example_lib 0 [[Some 7]] = Inr [7] \<and>
   predict example_lib loaded_serve example_world [[Some 7]] [''LotArea''] =
     (Inr [[7, 7]], loaded_serve, example_world)"
  using predict_returns_pair_of_first_prediction[OF loaded_model example_prediction,
      of example_world "[''LotArea'']"] loaded_model example_prediction
  by simp

text \<open>
  The reading "one duplicated pair for every input row" fails on an input of two rows
  whose predictions are 1 and 2: the value returned is \<open>[[1, 1]]\<close>, and the pair of the
  second row is not in it.
\<close>

theorem predict_pair_per_row_counterexample:
  "xgb_predict example_lib 0 [[Some 1], [Some 2]] = Inr [1, 2] \<and>
   predict example_lib loaded_serve example_world [[Some 1], [Some 2]] [] =
     (Inr [[1, 1]], loaded_serve, example_world) \<and>
   [2, 2] \<notin> set [[1, 1 :: real]]"
  by (simp add: predict_def example_lib_def loaded_serve_def)

text \<open>
  C9. A new object has no model and the fixed path \<open>trained_ames_model.dat\<close>. A call
  of \<open>predict\<close> on an object without a model reads exactly that local path once (one
  \<open>JoblibLoad\<close> event), changes neither the local files nor the buckets, does not depend
  on the buckets or on the network, and changes nothing of the object but
  \<open>trained_model\<close>, which becomes the model read when the file holds one. On an object
  that has a model, any sequence of \<open>predict\<close> calls leaves the object and the world
  (so also the trace: no further read) unchanged.
\<close>

theorem model_loaded_lazily_at_most_once:
  "trained_model (init :: 'm housing_serve) = None \<and>
   model_file (init :: 'm housing_serve) = ''trained_ames_model.dat'' \<and>
   (trained_model self = None \<longrightarrow> predict L self w X fn = (r, self', w') \<longrightarrow>
      trace w' = trace w @ [JoblibLoad (model_file self)] \<and>
      files w' = files w \<and> gcs w' = gcs w \<and> online w' = online w \<and>
      self' = self\<lparr>trained_model := trained_model self'\<rparr> \<and>
      trained_model self' =
        (case files w (model_file self) of
           Some (DatFile b) \<Rightarrow> (case joblib_load L b of Inr x \<Rightarrow> Some x | Inl e \<Rightarrow> None)
         | _ \<Rightarrow> None) \<and>
      fst (predict L self (w\<lparr>gcs := g, online := c\<rparr>) X fn) = r) \<and>
   (trained_model obj = Some m \<longrightarrow> predict_calls L obj v calls = (obj, v))"
proof (intro conjI impI)
  show "trained_model (init :: 'm housing_serve) = None" by (simp add: init_def)
  show "model_file (init :: 'm housing_serve) = ''trained_ames_model.dat''" by (simp add: init_def)
next
  assume "trained_model obj = Some m"
  then show "predict_calls L obj v calls = (obj, v)" by (rule predict_calls_loaded)
next
  assume a: "trained_model self = None" "predict L self w X fn = (r, self', w')"
  then show "trace w' = trace w @ [JoblibLoad (model_file self)]"
    by (auto simp: predict_def load_file_def Let_def
        split: option.splits content.splits sum.splits list.splits)
  from a show "files w' = files w"
    by (auto simp: predict_def load_file_def Let_def
        split: option.splits content.splits sum.splits list.splits)
  from a show "gcs w' = gcs w"
    by (auto simp: predict_def load_file_def Let_def
        split: option.splits content.splits sum.splits list.splits)
  from a show "online w' = online w"
    by (auto simp: predict_def load_file_def Let_def
        split: option.splits content.splits sum.splits list.splits)
  from a show "self' = self\<lparr>trained_model := trained_model self'\<rparr>"
    by (auto simp: predict_def load_file_def Let_def
        split: option.splits content.splits sum.splits list.splits)
  from a show "trained_model self' =
        (case files w (model_file self) of
           Some (DatFile b) \<Rightarrow> (case joblib_load L b of Inr x \<Rightarrow> Some x | Inl e \<Rightarrow> None)
         | _ \<Rightarrow> None)"
    by (auto simp: predict_def load_file_def Let_def
        split: option.splits content.splits sum.splits list.splits)
  from a show "fst (predict L self (w\<lparr>gcs := g, online := c\<rparr>) X fn) = r"
    by (auto simp: predict_def load_file_def Let_def
        split: option.splits content.splits sum.splits list.splits)
qed

theorem model_loaded_lazily_witness:
  "trained_model (init :: real housing_serve) = None \<and>
   predict example_lib init trained_world [[Some 7]] [] =
     (Inr [[71 / 10, 71 / 10]], init\<lparr>trained_model := Some (1 / 10)\<rparr>,
      trained_world\<lparr>trace := trace trained_world @ [JoblibLoad ''trained_ames_model.dat'']\<rparr>) \<and>
   trained_model loaded_serve = Some 0 \<and>
   trace (trained_world\<lparr>trace := trace trained_world @ [JoblibLoad ''trained_ames_model.dat'']\<rparr>) =
     trace trained_world @ [JoblibLoad (model_file (init :: real housing_serve))] \<and>
   predict_calls example_lib loaded_serve example_world
     [([[Some 7]], []), ([[Some 8], [Some 9]], [''LotArea''])] = (loaded_serve, example_world)"
proof -
  note t = model_loaded_lazily_at_most_once
    [where self = init and L = example_lib and w = trained_world and X = "[[Some 7]]"
       and fn = "[]" and r = "Inr [[71 / 10, 71 / 10]]"
       and self' = "init\<lparr>trained_model := Some (1 / 10)\<rparr>"
       and w' = "trained_world\<lparr>trace := trace trained_world @
                    [JoblibLoad ''trained_ames_model.dat'']\<rparr>"
       and g = Map.empty and c = True
       and obj = loaded_serve and m = 0 and v = example_world
       and calls = "[([[Some 7]], []), ([[Some 8], [Some 9]], [''LotArea''])]"]
  from t loaded_model
  have c: "predict_calls example_lib loaded_serve example_world
     [([[Some 7]], []), ([[Some 8], [Some 9]], [''LotArea''])] = (loaded_serve, example_world)"
    by blast
  from t init_unloaded example_first_predict
  have l: "trace (trained_world\<lparr>trace := trace trained_world @
              [JoblibLoad ''trained_ames_model.dat'']\<rparr>) =
     trace trained_world @ [JoblibLoad (model_file (init :: real housing_serve))]"
    by blast
  show ?thesis
    by (rule conjI[OF init_unloaded conjI[OF example_first_predict conjI[OF loaded_model
          conjI[OF l c]]]])
qed

text \<open>
  C10. \<open>predict\<close> ignores \<open>feature_names\<close>: the value returned, the object and the
  world after the call are the same for any two values of that argument.
\<close>

theorem predict_ignores_feature_names:
  "predict L self w X fn1 = predict L self w X fn2"
  by (simp add: predict_def)

section \<open>The data loader\<close>

text \<open>
  C2. The statistics of the imputer are the result of fitting on the training partition
  alone: two runs of \<open>read_input\<close> whose splits have the same training matrix, whatever
  their test partitions, labels and test fractions are, return the same imputer and the
  same imputed training matrix.
\<close>

theorem imputer_statistics_depend_on_training_partition_only:
  assumes "read_csv w1 f1 = Inr data1" and "read_csv w2 f2 = Inr data2"
    and "split_input data1 t1 = Inr (trX, teX1, trY1, teY1)"
    and "split_input data2 t2 = Inr (trX, teX2, trY2, teY2)"
    and "read_input w1 f1 t1 = Inr ((train_X1, train_y1), (test_X1, test_y1), imp1)"
    and "read_input w2 f2 t2 = Inr ((train_X2, train_y2), (test_X2, test_y2), imp2)"
  shows "imputer_fit trX = Inr (statistics imp1) \<and> statistics imp1 = statistics imp2 \<and>
         imp1 = imp2 \<and> train_X1 = train_X2"
proof -
  from read_input_frame_Inr[OF read_input_Inr[OF assms(5) assms(1)]] assms(3)
  have a: "imputer_fit trX = Inr (statistics imp1)" "strategy imp1 = ''median''"
    "train_X1 = map (impute_row (statistics imp1)) trX" by auto
  from read_input_frame_Inr[OF read_input_Inr[OF assms(6) assms(2)]] assms(4)
  have b: "imputer_fit trX = Inr (statistics imp2)" "strategy imp2 = ''median''"
    "train_X2 = map (impute_row (statistics imp2)) trX" by auto
  from a(1) b(1) have s: "statistics imp1 = statistics imp2" by simp
  with a b show ?thesis by simp
qed

theorem imputer_statistics_witness:
  "read_csv example_world ''ames_dataset/train.csv'' = Inr example_frame \<and>
   read_csv example_world ''other.csv'' = Inr other_frame \<and>
   [[Some 5, None, None], [Some 6, None, Some 3]] \<noteq>
     [[Some 9, Some 10, Some 7], [Some 9, Some 20, None :: real option]] \<and>
   imputer_fit [[Some 1, Some 80, None], [Some 2, None, None], [Some 3, Some 60, None]] =
     Inr (statistics \<lparr>strategy = ''median'', statistics = [Some 2, Some 70, None]\<rparr>)"
  using imputer_statistics_depend_on_training_partition_only
    [OF example_read_csv other_read_csv example_split_input other_split_input
        example_read_input other_read_input]
    example_read_csv other_read_csv
  by simp

text \<open>
  C3. Let \<open>n\<close> be the number of rows of the file whose \<open>SalePrice\<close> is not missing.
  When \<open>read_input\<close> returns, the training and test matrices have \<open>n\<close> rows together,
  the label arrays have the same lengths as the matrices, and the test partition has
  \<open>ceil(t * n)\<close> rows, which differs from \<open>round(t * n)\<close> by at most one.
\<close>

theorem split_sizes:
  assumes "read_csv w f = Inr data0"
    and "map_of data0 ''SalePrice'' = Some c0"
    and "read_input w f t = Inr ((train_X, train_y), (test_X, test_y), imp)"
  shows "length train_X + length test_X = length (filter Not (isna c0)) \<and>
         col_len train_y = length train_X \<and> col_len test_y = length test_X \<and>
         int (length test_X) = \<lceil>t * real (length (filter Not (isna c0)))\<rceil> \<and>
         \<bar>int (length test_X) - round (t * real (length (filter Not (isna c0))))\<bar> \<le> 1"
proof -
  from read_input_frame_Inr[OF read_input_Inr[OF assms(3) assms(1)]]
  obtain trX teX where s: "split_input data0 t = Inr (trX, teX, train_y, test_y)"
    and l: "length train_X = length trX" "length test_X = length teX" by auto
  from split_input_Inr[OF s] obtain data y X k where
    tf: "target_and_features data0 = Inr (data, y, X)" and
    k: "0 < k" "k < nrows data" "nrows data - k = nat \<lceil>t * real (nrows data)\<rceil>"
       "nrows data = col_len y" and
    p: "trX = take k (frame_values (nrows data) X)" "teX = drop k (frame_values (nrows data) X)"
       "train_y = col_take k y" "test_y = col_drop k y" by blast
  from target_and_features_Inr[OF tf] assms(2)
  have "y = col_filter (map Not (isna c0)) c0" by auto
  then have n: "nrows data = length (filter Not (isna c0))"
    using k(4) by (simp add: col_len_dropna)
  let ?n = "length (filter Not (isna c0))"
  from p k l have tr: "length train_X = k" and te: "length test_X = nrows data - k"
    by (simp_all add: length_frame_values)
  from p k have ytr: "col_len train_y = k" and yte: "col_len test_y = nrows data - k"
    by (cases y; simp)+
  from te k(3) n have c: "length test_X = nat \<lceil>t * real ?n\<rceil>" by simp
  from te k(2) have "0 < length test_X" by linarith
  with c have ci: "int (length test_X) = \<lceil>t * real ?n\<rceil>" by linarith
  from tr te k n have "length train_X + length test_X = ?n" by simp
  moreover from ci ceiling_near_round[of "t * real ?n"]
  have "\<bar>int (length test_X) - round (t * real ?n)\<bar> \<le> 1" by simp
  ultimately show ?thesis using ci tr te ytr yte by simp
qed

theorem split_sizes_witness:
  "read_input example_world ''ames_dataset/train.csv'' (25 / 100) =
     Inr (([[Some 1, Some 80], [Some 2, Some 70], [Some 3, Some 60]],
           NumCol [Some 200, Some 180, Some 140]),
          ([[Some 5, Some 70], [Some 6, Some 70]], NumCol [Some 250, Some 130]),
          \<lparr>strategy = ''median'', statistics = [Some 2, Some 70, None]\<rparr>) \<and>
   (3::nat) + 2 = length (filter Not
        (isna (NumCol [Some 200, Some 180, Some 140, None, Some 250, Some 130]))) \<and>
   (2::int) = \<lceil>(25 / 100) * real (length (filter Not
        (isna (NumCol [Some 200, Some 180, Some 140, None, Some 250, Some 130]))))\<rceil>"
  using split_sizes[OF example_read_csv example_target example_read_input]
    example_read_input
  by (simp add: default_test_size_def)

text \<open>
  C4. The split keeps the order of the rows: for some \<open>k\<close>, the training partition is
  the first \<open>k\<close> rows of the feature matrix and of the labels, and the test partition is
  all the rows after them; the matrices returned are these two blocks, imputed row by row.
  The default test fraction is 0.25. Nothing is drawn at random, so \<open>read_input\<close> is a
  function of the file contents and the test fraction.
\<close>

theorem split_is_contiguous:
  assumes "read_csv w f = Inr data0"
    and "target_and_features data0 = Inr (data, y, X)"
    and "read_input w f t = Inr ((train_X, train_y), (test_X, test_y), imp)"
  shows "default_test_size = 0.25 \<and>
         (\<exists>k. 0 < k \<and> k < nrows data \<and>
            split_input data0 t =
              Inr (take k (frame_values (nrows data) X), drop k (frame_values (nrows data) X),
                   col_take k y, col_drop k y) \<and>
            train_X = map (impute_row (statistics imp)) (take k (frame_values (nrows data) X)) \<and>
            test_X = map (impute_row (statistics imp)) (drop k (frame_values (nrows data) X)) \<and>
            train_y = col_take k y \<and> test_y = col_drop k y \<and>
            col_append train_y test_y = Some y)"
proof -
  from read_input_frame_Inr[OF read_input_Inr[OF assms(3) assms(1)]]
  obtain trX teX where s: "split_input data0 t = Inr (trX, teX, train_y, test_y)"
    and i: "train_X = map (impute_row (statistics imp)) trX"
           "test_X = map (impute_row (statistics imp)) teX" by auto
  from split_input_Inr[OF s] assms(2) obtain k where
    k: "0 < k" "k < nrows data" and
    p: "trX = take k (frame_values (nrows data) X)" "teX = drop k (frame_values (nrows data) X)"
       "train_y = col_take k y" "test_y = col_drop k y" by auto
  have c: "col_append (col_take k y) (col_drop k y) = Some y" by (cases y) simp_all
  have d: "default_test_size = 0.25" by (simp add: default_test_size_def)
  show ?thesis
    apply (rule conjI[OF d])
    apply (rule exI[of _ k])
    using s i k p c by simp
qed

theorem split_is_contiguous_witness:
  "read_csv example_world ''ames_dataset/train.csv'' = Inr example_frame \<and>
   target_and_features example_frame = Inr (example_data, example_y, example_X) \<and>
   default_test_size = 0.25 \<and>
   (\<exists>k. 0 < k \<and> k < nrows example_data \<and>
      split_input example_frame default_test_size =
        Inr (take k (frame_values (nrows example_data) example_X),
             drop k (frame_values (nrows example_data) example_X),
             col_take k example_y, col_drop k example_y) \<and>
      [[Some 1, Some 80], [Some 2, Some 70], [Some 3, Some 60]] =
        map (impute_row (statistics \<lparr>strategy = ''median'', statistics = [Some 2, Some 70, None]\<rparr>))
          (take k (frame_values (nrows example_data) example_X)) \<and>
      [[Some 5, Some 70], [Some 6, Some 70]] =
        map (impute_row (statistics \<lparr>strategy = ''median'', statistics = [Some 2, Some 70, None]\<rparr>))
          (drop k (frame_values (nrows example_data) example_X)) \<and>
      NumCol [Some 200, Some 180, Some 140] = col_take k example_y \<and>
      NumCol [Some 250, Some 130] = col_drop k example_y \<and>
      col_append (NumCol [Some 200, Some 180, Some 140]) (NumCol [Some 250, Some 130]) =
        Some example_y)"
  by (rule conjI[OF example_read_csv conjI[OF example_target_and_features
        split_is_contiguous[OF example_read_csv example_target_and_features
          example_read_input]]])

text \<open>
  C5. No entry of the training or test matrix returned by \<open>read_input\<close> is
  missing.
\<close>

theorem no_missing_values_after_imputation:
  assumes "read_input w f t = Inr ((train_X, train_y), (test_X, test_y), imp)"
  shows "\<forall>row \<in> set train_X \<union> set test_X. \<forall>c \<in> set row. c \<noteq> None"
proof -
  from assms obtain data0 where "read_input_frame data0 t = Inr ((train_X, train_y), (test_X, test_y), imp)"
    by (auto simp: read_input_def split: sum.splits)
  from read_input_frame_Inr[OF this] obtain trX teX where
    "train_X = map (impute_row (statistics imp)) trX"
    "test_X = map (impute_row (statistics imp)) teX" by auto
  then show ?thesis by (auto dest: impute_row_no_missing)
qed

theorem no_missing_values_witness:
  "read_input example_world ''ames_dataset/train.csv'' default_test_size =
     Inr (([[Some 1, Some 80], [Some 2, Some 70], [Some 3, Some 60]],
           NumCol [Some 200, Some 180, Some 140]),
          ([[Some 5, Some 70], [Some 6, Some 70]], NumCol [Some 250, Some 130]),
          \<lparr>strategy = ''median'', statistics = [Some 2, Some 70, None]\<rparr>) \<and>
   None \<notin> set (concat ([[Some 1, Some 80], [Some 2, Some 70], [Some 3, Some 60]] @
                       [[Some 5, Some 70], [Some 6, Some (70::real)]]))"
proof -
  from no_missing_values_after_imputation[OF example_read_input]
  have "None \<notin> set (concat ([[Some 1, Some 80], [Some 2, Some 70], [Some 3, Some 60]] @
                       [[Some 5, Some 70], [Some 6, Some (70::real)]]))"
    unfolding set_concat set_append by blast
  with example_read_input show ?thesis by (rule conjI)
qed

text \<open>
  C6. When \<open>read_input\<close> returns, the file has a \<open>SalePrice\<close> column; the rows where
  it is missing are removed from every column before the split; the labels are the
  remaining entries of \<open>SalePrice\<close>, none of them missing, cut into the two partitions;
  and the feature matrix is built from the columns other than \<open>SalePrice\<close> that are not
  of dtype \<open>object\<close>.
\<close>

theorem missing_targets_and_object_columns_discarded:
  assumes "read_csv w f = Inr data0"
    and "read_input w f t = Inr ((train_X, train_y), (test_X, test_y), imp)"
  shows "\<exists>c0 data y X k.
      map_of data0 ''SalePrice'' = Some c0 \<and>
      data = map (\<lambda>(name, col). (name, col_filter (map Not (isna c0)) col)) data0 \<and>
      y = col_filter (map Not (isna c0)) c0 \<and> True \<notin> set (isna y) \<and>
      X = filter (\<lambda>(name, col). \<not> is_object col)
            (filter (\<lambda>(name, col). name \<noteq> ''SalePrice'') data) \<and>
      (\<forall>(name, col) \<in> set X. \<not> is_object col \<and> name \<noteq> ''SalePrice'' \<and> (name, col) \<in> set data) \<and>
      split_input data0 t = train_test_split (frame_values (nrows data) X) y t \<and>
      train_y = col_take k y \<and> test_y = col_drop k y \<and>
      train_X = map (impute_row (statistics imp)) (take k (frame_values (nrows data) X)) \<and>
      test_X = map (impute_row (statistics imp)) (drop k (frame_values (nrows data) X))"
proof -
  from read_input_frame_Inr[OF read_input_Inr[OF assms(2) assms(1)]]
  obtain trX teX where s: "split_input data0 t = Inr (trX, teX, train_y, test_y)"
    and i: "train_X = map (impute_row (statistics imp)) trX"
           "test_X = map (impute_row (statistics imp)) teX" by auto
  from split_input_Inr[OF s] obtain data y X k where
    tf: "target_and_features data0 = Inr (data, y, X)" and
    p: "trX = take k (frame_values (nrows data) X)" "teX = drop k (frame_values (nrows data) X)"
       "train_y = col_take k y" "test_y = col_drop k y" by blast
  from target_and_features_Inr[OF tf] obtain c0 where
    c: "map_of data0 ''SalePrice'' = Some c0"
       "data = map (\<lambda>(name, col). (name, col_filter (map Not (isna c0)) col)) data0"
       "y = col_filter (map Not (isna c0)) c0"
       "X = select_dtypes_exclude_object (filter (\<lambda>(name, col). name \<noteq> ''SalePrice'') data)"
    by blast
  have x: "X = filter (\<lambda>(name, col). \<not> is_object col)
            (filter (\<lambda>(name, col). name \<noteq> ''SalePrice'') data)"
    using c(4) by (simp add: select_dtypes_exclude_object_def)
  have m: "True \<notin> set (isna y)" unfolding c(3) by (rule isna_dropna)
  have q: "\<forall>(name, col) \<in> set X. \<not> is_object col \<and> name \<noteq> ''SalePrice'' \<and> (name, col) \<in> set data"
    unfolding x by auto
  have sp: "split_input data0 t = train_test_split (frame_values (nrows data) X) y t"
    using tf by (simp add: split_input_def)
  show ?thesis
    apply (rule exI[of _ c0], rule exI[of _ data], rule exI[of _ y], rule exI[of _ X],
        rule exI[of _ k])
    using c(1,2,3) x m q sp p i by blast
qed

theorem missing_targets_witness:
  "read_csv example_world ''ames_dataset/train.csv'' = Inr example_frame \<and>
   (\<exists>c0 k. map_of example_frame ''SalePrice'' = Some c0 \<and>
      NumCol [Some 200, Some 180, Some 140] = col_take k (col_filter (map Not (isna c0)) c0) \<and>
      NumCol [Some 250, Some 130] = col_drop k (col_filter (map Not (isna c0)) c0))"
  using missing_targets_and_object_columns_discarded[OF example_read_csv example_read_input]
    example_read_csv
  by blast

section \<open>Training and persisting\<close>



end
